theory Spec2Isabelle
  imports Complex_Main
begin

section \<open>JavaScript values as the client reads them\<close>

text \<open>
  The client (\<^verbatim>\<open>client/src/App.jsx\<close>) receives its snapshots from \<^verbatim>\<open>JSON.parse\<close>, so the
  values it inspects are the JSON values, together with \<^verbatim>\<open>undefined\<close> (the result of
  reading a property that is not there). An object is the list of its own properties,
  read by name (the first binding of a name is the property); an array is the list of
  its elements. A number stands for the rational it denotes: the client never computes
  with a received number, it only tests it against \<^verbatim>\<open>null\<close> and passes it on. The number
  \<^verbatim>\<open>-0\<close> (the JSON text \<^verbatim>\<open>-0\<close>) is a value of its own, because \<^verbatim>\<open>Object.is\<close> tells it from
  \<^verbatim>\<open>0\<close>. A string is the list of its characters.
\<close>

datatype jsval =
    JUndefined
  | JNull
  | JBool bool
  | JNum rat
  | JNegZero
  | JStr string
  | JArr "jsval list"
  | JObj "(string \<times> jsval) list"

datatype error = TypeError | SyntaxError

text \<open>\<^verbatim>\<open>v == null\<close>, which is also the test behind \<^verbatim>\<open>??\<close> and \<^verbatim>\<open>?.\<close>\<close>

definition nullish :: "jsval \<Rightarrow> bool" where
  "nullish v \<longleftrightarrow> v = JUndefined \<or> v = JNull"

text \<open>\<^verbatim>\<open>a ?? b\<close>, for a right operand whose evaluation cannot fail\<close>

definition coalesce :: "jsval \<Rightarrow> jsval \<Rightarrow> jsval" where
  "coalesce a b = (if nullish a then b else a)"

text \<open>Sequencing of computations that may throw: the first exception ends the evaluation.\<close>

definition and_then :: "error + 'a \<Rightarrow> ('a \<Rightarrow> error + 'b) \<Rightarrow> error + 'b" where
  "and_then r f = (case r of Inl e \<Rightarrow> Inl e | Inr v \<Rightarrow> f v)"

subsection \<open>Property names\<close>

text \<open>
  \<^verbatim>\<open>String(n)\<close> for a non-negative integer \<open>n\<close>: its decimal digits. (The client applies it
  to the seat numbers 1 and 2 only.)
\<close>

definition digit_char :: "nat \<Rightarrow> char" where
  "digit_char d = ''0123456789'' ! d"

fun to_string :: "nat \<Rightarrow> string" where
  "to_string n = (if n < 10 then [digit_char n] else to_string (n div 10) @ [digit_char (n mod 10)])"

declare to_string.simps [simp del]

text \<open>
  A property key as the program writes it: a number (\<^verbatim>\<open>players[1]\<close>, \<^verbatim>\<open>{1: ...}\<close>) or a
  string (\<^verbatim>\<open>players["1"]\<close>, \<^verbatim>\<open>source.ball\<close>). Properties are named by strings: a numeric
  key names the property of its decimal string, both when an object is built and when
  it is read. JSON text admits string names only.
\<close>

datatype pkey = NumKey nat | StrKey string

fun property_name :: "pkey \<Rightarrow> string" where
  "property_name (NumKey n) = to_string n"
| "property_name (StrKey s) = s"

text \<open>The object with the given properties, each key written as a number or as a string.\<close>

definition mk_object :: "(pkey \<times> jsval) list \<Rightarrow> jsval" where
  "mk_object ps = JObj (map (\<lambda>(k, v). (property_name k, v)) ps)"

subsection \<open>Reading a property\<close>

text \<open>The index a property name denotes on an array or a string: canonical decimal digits.\<close>

fun position :: "char \<Rightarrow> string \<Rightarrow> nat option" where
  "position c [] = None"
| "position c (d # ds) = (if c = d then Some 0 else map_option Suc (position c ds))"

definition digit_val :: "char \<Rightarrow> nat option" where
  "digit_val c = position c ''0123456789''"

fun parse_digits :: "string \<Rightarrow> nat \<Rightarrow> nat option" where
  "parse_digits [] acc = Some acc"
| "parse_digits (c # cs) acc =
     (case digit_val c of None \<Rightarrow> None | Some d \<Rightarrow> parse_digits cs (10 * acc + d))"

definition array_index :: "string \<Rightarrow> nat option" where
  "array_index k =
     (if k = [] then None
      else if hd k = CHR ''0'' \<and> k \<noteq> ''0'' then None
      else parse_digits k 0)"

text \<open>
  The value of \<^verbatim>\<open>v[k]\<close> for a \<open>v\<close> that is neither \<^verbatim>\<open>null\<close> nor \<^verbatim>\<open>undefined\<close>: an own
  property of an object, an element or the length of an array, a character or the
  length of a string, and \<^verbatim>\<open>undefined\<close> otherwise. Members inherited from the built-in
  prototypes (\<^verbatim>\<open>toString\<close>, \<^verbatim>\<open>map\<close>, ...) are not values of this model; the names the
  client reads from a received value (\<^verbatim>\<open>type\<close>, \<^verbatim>\<open>player\<close>, \<^verbatim>\<open>players\<close>, \<^verbatim>\<open>score\<close>, \<^verbatim>\<open>ball\<close>,
  \<^verbatim>\<open>bounds\<close>, \<^verbatim>\<open>paddle\<close>, \<^verbatim>\<open>ballRadius\<close>, \<^verbatim>\<open>x\<close>, \<^verbatim>\<open>y\<close>, \<^verbatim>\<open>width\<close>, \<^verbatim>\<open>height\<close>, \<^verbatim>\<open>w\<close>, \<^verbatim>\<open>h\<close>,
  \<^verbatim>\<open>1\<close>, \<^verbatim>\<open>2\<close>) are none of them.
\<close>

fun field_of :: "jsval \<Rightarrow> string \<Rightarrow> jsval" where
  "field_of (JObj ps) k = (case map_of ps k of Some v \<Rightarrow> v | None \<Rightarrow> JUndefined)"
| "field_of (JArr xs) k =
     (case array_index k of
        Some i \<Rightarrow> if i < length xs then xs ! i else JUndefined
      | None \<Rightarrow> if k = ''length'' then JNum (of_nat (length xs)) else JUndefined)"
| "field_of (JStr s) k =
     (case array_index k of
        Some i \<Rightarrow> if i < length s then JStr [s ! i] else JUndefined
      | None \<Rightarrow> if k = ''length'' then JNum (of_nat (length s)) else JUndefined)"
| "field_of v k = JUndefined"

text \<open>\<^verbatim>\<open>v.k\<close>: reading a property of \<^verbatim>\<open>null\<close> or \<^verbatim>\<open>undefined\<close> throws a TypeError.\<close>

definition get :: "jsval \<Rightarrow> string \<Rightarrow> error + jsval" where
  "get v k = (if nullish v then Inl TypeError else Inr (field_of v k))"

text \<open>\<^verbatim>\<open>v[key]\<close> with a computed key\<close>

definition get_key :: "jsval \<Rightarrow> pkey \<Rightarrow> error + jsval" where
  "get_key v key = get v (property_name key)"

text \<open>\<^verbatim>\<open>v?.k\<close>: \<^verbatim>\<open>undefined\<close> when \<open>v\<close> is \<^verbatim>\<open>null\<close> or \<^verbatim>\<open>undefined\<close>\<close>

definition opt_get :: "jsval \<Rightarrow> string \<Rightarrow> error + jsval" where
  "opt_get v k = (if nullish v then Inr JUndefined else get v k)"

section \<open>The default state and the normalisation of a snapshot\<close>

text \<open>
  The quotients \<open>(500 - 80) / 2\<close>, \<open>800 / 2\<close> and \<open>500 / 2\<close> are whole numbers, so their
  value as doubles is their exact value.
\<close>

definition defaultState :: jsval where
  "defaultState =
     JObj [
       (''players'', mk_object [
          (NumKey 1, JObj [(''y'', JNum ((500 - 80) / 2))]),
          (NumKey 2, JObj [(''y'', JNum ((500 - 80) / 2))])]),
       (''ball'', JObj [(''x'', JNum (800 / 2)), (''y'', JNum (500 / 2))]),
       (''score'', mk_object [(NumKey 1, JNum 0), (NumKey 2, JNum 0)]),
       (''bounds'', JObj [(''width'', JNum 800), (''height'', JNum 500)]),
       (''paddle'', JObj [(''w'', JNum 12), (''h'', JNum 80)]),
       (''ballRadius'', JNum 8)]"

text \<open>
  The two local functions of \<^verbatim>\<open>normaliseState\<close>, with the \<^verbatim>\<open>players\<close> and \<^verbatim>\<open>score\<close> they
  close over as a parameter. Each tries the numeric key, then its string form, then the
  default.
\<close>

definition resolvePlayerY :: "jsval \<Rightarrow> nat \<Rightarrow> error + jsval" where
  "resolvePlayerY players key =
     and_then (get_key players (NumKey key)) (\<lambda>p.
     and_then (opt_get p ''y'') (\<lambda>y.
       if \<not> nullish y then and_then (get_key players (NumKey key)) (\<lambda>p. get p ''y'')
       else
         let asString = to_string key in
         and_then (get_key players (StrKey asString)) (\<lambda>q.
         and_then (opt_get q ''y'') (\<lambda>y'.
           if \<not> nullish y' then and_then (get_key players (StrKey asString)) (\<lambda>q. get q ''y'')
           else
             and_then (get defaultState ''players'') (\<lambda>dp.
             and_then (get_key dp (NumKey key)) (\<lambda>d. get d ''y''))))))"

definition resolveScore :: "jsval \<Rightarrow> nat \<Rightarrow> error + jsval" where
  "resolveScore score key =
     and_then (get_key score (NumKey key)) (\<lambda>s.
       if \<not> nullish s then get_key score (NumKey key)
       else
         let asString = to_string key in
         and_then (get_key score (StrKey asString)) (\<lambda>s'.
           if \<not> nullish s' then get_key score (StrKey asString)
           else and_then (get defaultState ''score'') (\<lambda>ds. get_key ds (NumKey key))))"

text \<open>\<^verbatim>\<open>source.part?.k ?? defaultState.part.k\<close>, the form of the six fields of
  \<^verbatim>\<open>ball\<close>, \<^verbatim>\<open>bounds\<close> and \<^verbatim>\<open>paddle\<close>\<close>

definition part_or_default :: "jsval \<Rightarrow> string \<Rightarrow> string \<Rightarrow> error + jsval" where
  "part_or_default source part k =
     and_then (get source part) (\<lambda>b.
     and_then (opt_get b k) (\<lambda>v.
       if nullish v then and_then (get defaultState part) (\<lambda>d. get d k) else Inr v))"

text \<open>The object literal that \<^verbatim>\<open>normaliseState\<close> returns, from its eleven values.\<close>

definition full_state ::
  "jsval \<Rightarrow> jsval \<Rightarrow> jsval \<Rightarrow> jsval \<Rightarrow> jsval \<Rightarrow> jsval \<Rightarrow> jsval \<Rightarrow> jsval \<Rightarrow> jsval \<Rightarrow> jsval \<Rightarrow> jsval \<Rightarrow> jsval"
where
  "full_state y1 y2 bx byy s1 s2 bw bh pw ph r =
     JObj [
       (''players'', mk_object [(NumKey 1, JObj [(''y'', y1)]), (NumKey 2, JObj [(''y'', y2)])]),
       (''ball'', JObj [(''x'', bx), (''y'', byy)]),
       (''score'', mk_object [(NumKey 1, s1), (NumKey 2, s2)]),
       (''bounds'', JObj [(''width'', bw), (''height'', bh)]),
       (''paddle'', JObj [(''w'', pw), (''h'', ph)]),
       (''ballRadius'', r)]"

definition normaliseState :: "jsval \<Rightarrow> error + jsval" where
  "normaliseState incoming =
     (let source = coalesce incoming (JObj []) in
      and_then (get source ''players'') (\<lambda>sp. let players = coalesce sp (JObj []) in
      and_then (get source ''score'') (\<lambda>ss. let score = coalesce ss (JObj []) in
      and_then (resolvePlayerY players 1) (\<lambda>y1.
      and_then (resolvePlayerY players 2) (\<lambda>y2.
      and_then (part_or_default source ''ball'' ''x'') (\<lambda>bx.
      and_then (part_or_default source ''ball'' ''y'') (\<lambda>byy.
      and_then (resolveScore score 1) (\<lambda>s1.
      and_then (resolveScore score 2) (\<lambda>s2.
      and_then (part_or_default source ''bounds'' ''width'') (\<lambda>bw.
      and_then (part_or_default source ''bounds'' ''height'') (\<lambda>bh.
      and_then (part_or_default source ''paddle'' ''w'') (\<lambda>pw.
      and_then (part_or_default source ''paddle'' ''h'') (\<lambda>ph.
      and_then (get source ''ballRadius'') (\<lambda>sr.
      and_then (get defaultState ''ballRadius'') (\<lambda>dr.
        Inr (full_state y1 y2 bx byy s1 s2 bw bh pw ph (coalesce sr dr)))))))))))))))))"


section \<open>The client's refs, state and listeners\<close>

text \<open>
  \<^verbatim>\<open>useWebSocketState\<close> and \<^verbatim>\<open>App\<close> keep two pieces of React state (\<^verbatim>\<open>assignedPlayer\<close>,
  \<^verbatim>\<open>state\<close>) and three refs (\<^verbatim>\<open>wsRef\<close>, \<^verbatim>\<open>inputRef\<close>, \<^verbatim>\<open>keysRef\<close>).

  A ref changes at once. A piece of React state changes at the next render: a call of
  its setter only queues the new value; \<open>assignedPlayer\<close> and \<open>state\<close> are the values of
  the last render, \<open>queuedPlayer\<close> and \<open>queuedState\<close> the value of the last setter call
  since then. \<open>resendDue\<close> says that the last render changed \<^verbatim>\<open>assignedPlayer\<close> and the
  effect that depends on it has not run yet.

  \<open>wsRef\<close> is \<open>None\<close> when \<^verbatim>\<open>wsRef.current\<close> is \<^verbatim>\<open>null\<close> and otherwise the \<^verbatim>\<open>readyState\<close> of
  the socket it holds. \<open>sent\<close> records the effect of \<^verbatim>\<open>ws.send\<close>: the values handed to
  \<^verbatim>\<open>JSON.stringify\<close> and sent, oldest first.
\<close>

datatype readyState = CONNECTING | OPEN | CLOSING | CLOSED

record intent =
  up :: bool
  down :: bool

text \<open>
  \<^verbatim>\<open>keysRef.current\<close> starts as \<^verbatim>\<open>{ up: false, down: false }\<close>. \<open>others\<close> holds the
  properties that \<^verbatim>\<open>handleKey\<close> can add besides \<^verbatim>\<open>up\<close> and \<^verbatim>\<open>down\<close> (see \<open>keyMap_lookup\<close>).
\<close>

record keys = intent +
  others :: "(string \<times> bool) list"

record client =
  assignedPlayer :: jsval
  state :: jsval
  queuedPlayer :: "jsval option"
  queuedState :: "jsval option"
  resendDue :: bool
  wsRef :: "readyState option"
  inputRef :: intent
  keysRef :: keys
  sent :: "jsval list"

subsection \<open>The input interval\<close>

text \<open>
  \<^verbatim>\<open>1000 / 30\<close> is a division of doubles: its value is the double nearest to the exact
  quotient. \<open>to_double\<close> rounds a rational to the nearest double, ties to the even
  significand (53 bits); it is right for magnitudes from \<open>2 ^ (-1022)\<close> up to \<open>2 ^ 1024\<close>,
  where doubles are normal. \<open>binade q\<close> is the exponent \<open>e\<close> with \<open>2 ^ e \<le> q < 2 ^ (e + 1)\<close>,
  and \<open>pow2 e\<close> is \<open>2 ^ e\<close> for an exponent of either sign.
\<close>

fun ilog2 :: "nat \<Rightarrow> nat" where
  "ilog2 n = (if n < 2 then 0 else Suc (ilog2 (n div 2)))"

declare ilog2.simps [simp del]

definition binade :: "rat \<Rightarrow> int" where
  "binade q =
     (if 1 \<le> q then int (ilog2 (nat \<lfloor>q\<rfloor>))
      else - int (Suc (ilog2 (nat \<lceil>1 / q\<rceil> - 1))))"

definition pow2 :: "int \<Rightarrow> rat" where
  "pow2 e = (if 0 \<le> e then 2 ^ nat e else 1 / 2 ^ nat (- e))"

definition to_double :: "rat \<Rightarrow> rat" where
  "to_double q =
     (if q = 0 then 0
      else
        let ulp = pow2 (binade \<bar>q\<bar> - 52);
            m = \<bar>q\<bar> / ulp;
            f = \<lfloor>m\<rfloor>;
            r = m - of_int f;
            n = (if r < 1 / 2 \<or> (r = 1 / 2 \<and> even f) then f else f + 1)
        in sgn q * of_int n * ulp)"

definition INPUT_INTERVAL :: rat where
  "INPUT_INTERVAL = to_double (1000 / 30)"

text \<open>\<^verbatim>\<open>wsRef.current && wsRef.current.readyState === WebSocket.OPEN\<close>\<close>

definition socket_open :: "client \<Rightarrow> bool" where
  "socket_open c \<longleftrightarrow> wsRef c = Some OPEN"

text \<open>The callback that the second effect of \<^verbatim>\<open>useWebSocketState\<close> hands to \<^verbatim>\<open>setInterval\<close>.\<close>

definition interval_callback :: "client \<Rightarrow> client" where
  "interval_callback c =
     (if \<not> socket_open c then c
      else c\<lparr>sent := sent c @
             [JObj [(''type'', JStr ''input''), (''up'', JBool (up (inputRef c))),
                    (''down'', JBool (down (inputRef c)))]]\<rparr>)"

text \<open>
  \<^verbatim>\<open>setInterval(callback, INPUT_INTERVAL)\<close>: the repeating timer of the client, as the delay
  in milliseconds it is set with and the callback it runs. When the browser fires a
  timer of a given delay is the browser's business and not part of this model; \<open>Tick\<close>
  below is one firing of this timer.
\<close>

definition input_timer :: "rat \<times> (client \<Rightarrow> client)" where
  "input_timer = (INPUT_INTERVAL, interval_callback)"

definition updateInput :: "bool \<Rightarrow> bool \<Rightarrow> client \<Rightarrow> client" where
  "updateInput u d c =
     (let c1 = c\<lparr>inputRef := \<lparr>up = u, down = d\<rparr>\<rparr> in
      if socket_open c1
      then c1\<lparr>sent := sent c1 @
              [JObj [(''type'', JStr ''input''), (''up'', JBool u), (''down'', JBool d)]]\<rparr>
      else c1)"

definition resendCurrentInput :: "client \<Rightarrow> client" where
  "resendCurrentInput c = updateInput (up (inputRef c)) (down (inputRef c)) c"

subsection \<open>Keyboard events\<close>

datatype direction = Up | Down

definition keyMap :: "(string \<times> direction) list" where
  "keyMap =
     [(''KeyW'', Up), (''KeyS'', Down), (''ArrowUp'', Up), (''ArrowDown'', Down),
      (''KeyA'', Up), (''KeyD'', Down)]"

text \<open>
  \<^verbatim>\<open>keyMap[event.code]\<close> reads a property of an object literal by a name that comes from
  the event, so the read goes through the literal's prototype: a name that is no key of
  the literal but a member of \<^verbatim>\<open>Object.prototype\<close> yields that member, which is truthy.
\<close>

definition object_prototype_names :: "string list" where
  "object_prototype_names =
     [''constructor'', ''hasOwnProperty'', ''isPrototypeOf'', ''propertyIsEnumerable'',
      ''toLocaleString'', ''toString'', ''valueOf'', ''__proto__'', ''__defineGetter__'',
      ''__defineSetter__'', ''__lookupGetter__'', ''__lookupSetter__'']"

datatype lookup = Mapped direction | Inherited | Missing

definition keyMap_lookup :: "string \<Rightarrow> lookup" where
  "keyMap_lookup code =
     (case map_of keyMap code of
        Some action \<Rightarrow> Mapped action
      | None \<Rightarrow> if code \<in> set object_prototype_names then Inherited else Missing)"

text \<open>\<^verbatim>\<open>current[action]\<close> and \<^verbatim>\<open>{ ...current, [action]: isDown }\<close> for a direction\<close>

fun dir_get :: "direction \<Rightarrow> keys \<Rightarrow> bool" where
  "dir_get Up k = up k"
| "dir_get Down k = down k"

fun dir_set :: "direction \<Rightarrow> bool \<Rightarrow> keys \<Rightarrow> keys" where
  "dir_set Up b k = k\<lparr>up := b\<rparr>"
| "dir_set Down b k = k\<lparr>down := b\<rparr>"

text \<open>
  \<^verbatim>\<open>handleKey(event, isDown)\<close>, as a function of \<^verbatim>\<open>event.code\<close>;
  \<^verbatim>\<open>event.preventDefault()\<close> acts on the browser only. For an inherited member the
  computed key \<^verbatim>\<open>[action]\<close> is the member's text, which is neither \<^verbatim>\<open>up\<close> nor \<^verbatim>\<open>down\<close> and
  differs from member to member: the property it names is kept in \<open>others\<close> under the
  member's name.
\<close>

definition handleKey :: "string \<Rightarrow> bool \<Rightarrow> client \<Rightarrow> client" where
  "handleKey code isDown c =
     (case keyMap_lookup code of
        Missing \<Rightarrow> c
      | Mapped action \<Rightarrow>
          let current = keysRef c in
          if dir_get action current = isDown then c
          else
            let next = dir_set action isDown current in
            updateInput (up next) (down next) (c\<lparr>keysRef := next\<rparr>)
      | Inherited \<Rightarrow>
          let current = keysRef c in
          if map_of (others current) code = Some isDown then c
          else
            let next = current\<lparr>others := (code, isDown) # others current\<rparr> in
            updateInput (up next) (down next) (c\<lparr>keysRef := next\<rparr>))"

subsection \<open>Socket events\<close>

text \<open>
  The two state setters: each queues its value for the next render, and a later call
  replaces an earlier one that has not been rendered.
\<close>

definition setAssignedPlayer :: "jsval \<Rightarrow> client \<Rightarrow> client" where
  "setAssignedPlayer v c = c\<lparr>queuedPlayer := Some v\<rparr>"

definition setState :: "jsval \<Rightarrow> client \<Rightarrow> client" where
  "setState s c = c\<lparr>queuedState := Some s\<rparr>"

text \<open>
  The \<^verbatim>\<open>message\<close> listener. Its argument is what \<^verbatim>\<open>JSON.parse(event.data)\<close> makes of the
  message text: \<open>None\<close> when the text is not JSON and \<^verbatim>\<open>JSON.parse\<close> throws a SyntaxError,
  \<open>Some data\<close> otherwise. The listener catches nothing. Both places where it can throw
  (\<^verbatim>\<open>JSON.parse\<close>, \<^verbatim>\<open>data.type\<close>) come before its first call of a setter.
\<close>

definition on_message :: "jsval option \<Rightarrow> client \<Rightarrow> error + client" where
  "on_message parsed c =
     (case parsed of
        None \<Rightarrow> Inl SyntaxError
      | Some data \<Rightarrow>
          and_then (get data ''type'') (\<lambda>t.
            if t = JStr ''assign'' then
              and_then (get data ''player'') (\<lambda>player.
                Inr (setAssignedPlayer (if player = JNull then JStr ''spectator'' else player) c))
            else if t = JStr ''state'' then
              and_then (normaliseState data) (\<lambda>s. Inr (setState s c))
            else Inr c))"

text \<open>The \<^verbatim>\<open>close\<close> listener.\<close>

definition on_close :: "client \<Rightarrow> client" where
  "on_close c = setAssignedPlayer JNull (c\<lparr>wsRef := None\<rparr>)"

subsection \<open>Renders and effects\<close>

text \<open>
  React compares the new \<^verbatim>\<open>assignedPlayer\<close> with the old one by \<^verbatim>\<open>Object.is\<close>: a primitive
  is the same as an equal primitive (\<^verbatim>\<open>0\<close> and \<^verbatim>\<open>-0\<close> are different values), and an object
  or array that \<^verbatim>\<open>JSON.parse\<close> has just built is the same as no earlier value.
\<close>

fun primitive :: "jsval \<Rightarrow> bool" where
  "primitive (JArr xs) = False"
| "primitive (JObj ps) = False"
| "primitive v = True"

definition role_unchanged :: "jsval \<Rightarrow> jsval \<Rightarrow> bool" where
  "role_unchanged old new \<longleftrightarrow> primitive new \<and> old = new"

text \<open>
  The effect \<^verbatim>\<open>useEffect(() => { resendCurrentInput(); }, [assignedPlayer, resendCurrentInput])\<close>
  of \<^verbatim>\<open>App\<close>, where \<^verbatim>\<open>resendCurrentInput\<close> never changes: React runs it some time after a
  render that changed \<^verbatim>\<open>assignedPlayer\<close>, and at the latest before the next render.
\<close>

definition run_effects :: "client \<Rightarrow> client" where
  "run_effects c = (if resendDue c then resendCurrentInput (c\<lparr>resendDue := False\<rparr>) else c)"

text \<open>
  A render: any effect still due runs first; then the queued values become the state,
  and the resend effect is due when that changed \<^verbatim>\<open>assignedPlayer\<close>.
\<close>

definition render :: "client \<Rightarrow> client" where
  "render c =
     (let c1 = run_effects c in
      c1\<lparr>assignedPlayer := (case queuedPlayer c1 of None \<Rightarrow> assignedPlayer c1 | Some v \<Rightarrow> v),
          state := (case queuedState c1 of None \<Rightarrow> state c1 | Some s \<Rightarrow> s),
          queuedPlayer := None,
          queuedState := None,
          resendDue :=
            (case queuedPlayer c1 of
               None \<Rightarrow> False
             | Some v \<Rightarrow> \<not> role_unchanged (assignedPlayer c1) v)\<rparr>)"

text \<open>
  The client once mounted, after its first render and the first run of its effects:
  the socket is being opened, nothing is assigned, the state is the default state, no
  key is held, and nothing has been sent (the first run of the resend effect finds the
  socket not yet open).
\<close>

definition client0 :: client where
  "client0 =
     \<lparr>assignedPlayer = JNull, state = defaultState,
      queuedPlayer = None, queuedState = None, resendDue = False,
      wsRef = Some CONNECTING,
      inputRef = \<lparr>up = False, down = False\<rparr>,
      keysRef = \<lparr>up = False, down = False, others = []\<rparr>, sent = []\<rparr>"

text \<open>
  What can happen to a mounted client: the timer fires, a key goes down or up, a message
  arrives (given by its parse), the browser moves the socket to another \<^verbatim>\<open>readyState\<close>,
  the socket's \<^verbatim>\<open>close\<close> event fires, React renders, React runs the effects that are due.
  An exception thrown by the message listener ends that listener; it has changed
  nothing by then.
\<close>

datatype event =
    Tick
  | KeyDown string
  | KeyUp string
  | Message "jsval option"
  | Ready readyState
  | Close
  | Render
  | Effects

fun step :: "event \<Rightarrow> client \<Rightarrow> client" where
  "step Tick c = snd input_timer c"
| "step (KeyDown code) c = handleKey code True c"
| "step (KeyUp code) c = handleKey code False c"
| "step (Message parsed) c = (case on_message parsed c of Inl e \<Rightarrow> c | Inr c' \<Rightarrow> c')"
| "step (Ready rs) c = c\<lparr>wsRef := map_option (\<lambda>_. rs) (wsRef c)\<rparr>"
| "step Close c = on_close c"
| "step Render c = render c"
| "step Effects c = run_effects c"

fun run :: "event list \<Rightarrow> client \<Rightarrow> client" where
  "run [] c = c"
| "run (e # es) c = run es (step e c)"

subsection \<open>The label shown for a role\<close>

text \<open>
  The \<^verbatim>\<open>roleLabel\<close> memo of \<^verbatim>\<open>App\<close>, as a function of \<^verbatim>\<open>assignedPlayer\<close>: computed at each
  render from the state of that render.
\<close>

definition roleLabel :: "jsval \<Rightarrow> string" where
  "roleLabel assigned =
     (if assigned = JNum 1 \<or> assigned = JNum 2 then
        ''Connected as Player '' @ to_string (if assigned = JNum 1 then 1 else 2)
      else if assigned = JNull then ''Connecting...''
      else ''Spectator'')"

section \<open>Reading a value along a path\<close>

text \<open>
  The eleven fields of the full state shape, each as the path of property names that
  leads to it.
\<close>

definition state_paths :: "string list list" where
  "state_paths =
     [[''players'', ''1'', ''y''], [''players'', ''2'', ''y''],
      [''ball'', ''x''], [''ball'', ''y''],
      [''score'', ''1''], [''score'', ''2''],
      [''bounds'', ''width''], [''bounds'', ''height''],
      [''paddle'', ''w''], [''paddle'', ''h''],
      [''ballRadius'']]"

text \<open>
  The way the drawing effect reads a field (\<^verbatim>\<open>players[1].y\<close>, \<^verbatim>\<open>bounds.width\<close>): every
  step is a plain property read, which throws on \<^verbatim>\<open>null\<close> and \<^verbatim>\<open>undefined\<close>.
\<close>

fun read_path :: "jsval \<Rightarrow> string list \<Rightarrow> error + jsval" where
  "read_path v [] = Inr v"
| "read_path v (k # ks) = and_then (get v k) (\<lambda>w. read_path w ks)"

text \<open>
  The value a snapshot carries for a field, in the words of the specification: the
  value found by following the path, and \<^verbatim>\<open>undefined\<close> (absent) as soon as a step of the
  path is missing or null.
\<close>

fun value_at :: "jsval \<Rightarrow> string list \<Rightarrow> jsval" where
  "value_at v [] = v"
| "value_at v (k # ks) = (if nullish v then JUndefined else value_at (field_of v k) ks)"


text \<open>
  A snapshot whose \<^verbatim>\<open>players\<close> and \<^verbatim>\<open>score\<close> objects are written with numeric seat keys
  (\<^verbatim>\<open>{1: ..., 2: ...}\<close>) or with string seat keys (\<^verbatim>\<open>{"1": ..., "2": ...}\<close>), each as the
  flag says, around the same four entries and the same remaining properties.
\<close>

definition seat_key :: "bool \<Rightarrow> nat \<Rightarrow> pkey" where
  "seat_key numeric n = (if numeric then NumKey n else StrKey (to_string n))"

definition snapshot_keyed ::
  "bool \<Rightarrow> bool \<Rightarrow> jsval \<Rightarrow> jsval \<Rightarrow> jsval \<Rightarrow> jsval \<Rightarrow> (string \<times> jsval) list \<Rightarrow> jsval"
where
  "snapshot_keyed numeric_players numeric_score p1 p2 s1 s2 rest =
     JObj ((''players'', mk_object [(seat_key numeric_players 1, p1), (seat_key numeric_players 2, p2)])
         # (''score'', mk_object [(seat_key numeric_score 1, s1), (seat_key numeric_score 2, s2)])
         # rest)"


text \<open>
  Between two states of the client, either nothing was sent, or exactly one message
  was sent and it is the input message of the intent that the later state stores.
\<close>

definition sent_current_intent :: "client \<Rightarrow> client \<Rightarrow> bool" where
  "sent_current_intent c c' \<longleftrightarrow>
     sent c' = sent c
     \<or> sent c' = sent c @
          [JObj [(''type'', JStr ''input''), (''up'', JBool (up (inputRef c'))),
                 (''down'', JBool (down (inputRef c')))]]"

section \<open>Basic facts about values and property reads\<close>

lemma to_string_1 [simp]: "to_string 1 = ''1''"
  by (simp add: to_string.simps digit_char_def)

lemma to_string_Suc_0 [simp]: "to_string (Suc 0) = ''1''"
  using to_string_1 by simp

lemma to_string_2 [simp]: "to_string 2 = ''2''"
  by (simp add: to_string.simps digit_char_def)

lemma nullish_simps [simp]:
  "nullish JUndefined" "nullish JNull" "\<not> nullish (JBool b)" "\<not> nullish (JNum n)"
  "\<not> nullish (JStr s)" "\<not> nullish (JArr xs)" "\<not> nullish (JObj ps)" "\<not> nullish JNegZero"
  by (simp_all add: nullish_def)

lemma and_then_simps [simp]:
  "and_then (Inl e) f = Inl e" "and_then (Inr v) f = f v"
  by (simp_all add: and_then_def)

lemma coalesce_not_nullish: "\<not> nullish d \<Longrightarrow> \<not> nullish (coalesce v d)"
  by (simp add: coalesce_def)

lemma coalesce_idem [simp]: "\<not> nullish d \<Longrightarrow> coalesce (coalesce v d) d = coalesce v d"
  by (simp add: coalesce_def)

lemma field_of_nullish [simp]: "nullish v \<Longrightarrow> field_of v k = JUndefined"
  by (auto simp: nullish_def)

lemma get_ok [simp]: "\<not> nullish v \<Longrightarrow> get v k = Inr (field_of v k)"
  by (simp add: get_def)

lemma get_found [simp]: "\<not> nullish (field_of v k) \<Longrightarrow> get v k = Inr (field_of v k)"
  by (auto simp: get_def)

lemma opt_get_eq [simp]: "opt_get v k = Inr (field_of v k)"
  by (simp add: opt_get_def)

lemma mk_object_seats [simp]:
  "mk_object [(NumKey 1, a), (NumKey 2, b)] = JObj [(''1'', a), (''2'', b)]"
  "mk_object [(NumKey (Suc 0), a), (NumKey 2, b)] = JObj [(''1'', a), (''2'', b)]"
  by (simp_all add: mk_object_def)

lemma value_at_undefined [simp]: "value_at JUndefined p = JUndefined"
  by (cases p) simp_all

section \<open>The default state\<close>

lemma default_fields [simp]:
  "field_of defaultState ''players'' = JObj [(''1'', JObj [(''y'', JNum 210)]), (''2'', JObj [(''y'', JNum 210)])]"
  "field_of defaultState ''ball'' = JObj [(''x'', JNum 400), (''y'', JNum 250)]"
  "field_of defaultState ''score'' = JObj [(''1'', JNum 0), (''2'', JNum 0)]"
  "field_of defaultState ''bounds'' = JObj [(''width'', JNum 800), (''height'', JNum 500)]"
  "field_of defaultState ''paddle'' = JObj [(''w'', JNum 12), (''h'', JNum 80)]"
  "field_of defaultState ''ballRadius'' = JNum 8"
  "\<not> nullish defaultState"
  by (simp_all add: defaultState_def)

lemma defaultState_full:
  "defaultState = full_state (JNum 210) (JNum 210) (JNum 400) (JNum 250) (JNum 0) (JNum 0)
     (JNum 800) (JNum 500) (JNum 12) (JNum 80) (JNum 8)"
  by (simp add: defaultState_def full_state_def)

lemma read_path_full_state:
  "read_path (full_state y1 y2 bx byy s1 s2 bw bh pw ph r) [''players'', ''1'', ''y''] = Inr y1"
  "read_path (full_state y1 y2 bx byy s1 s2 bw bh pw ph r) [''players'', ''2'', ''y''] = Inr y2"
  "read_path (full_state y1 y2 bx byy s1 s2 bw bh pw ph r) [''ball'', ''x''] = Inr bx"
  "read_path (full_state y1 y2 bx byy s1 s2 bw bh pw ph r) [''ball'', ''y''] = Inr byy"
  "read_path (full_state y1 y2 bx byy s1 s2 bw bh pw ph r) [''score'', ''1''] = Inr s1"
  "read_path (full_state y1 y2 bx byy s1 s2 bw bh pw ph r) [''score'', ''2''] = Inr s2"
  "read_path (full_state y1 y2 bx byy s1 s2 bw bh pw ph r) [''bounds'', ''width''] = Inr bw"
  "read_path (full_state y1 y2 bx byy s1 s2 bw bh pw ph r) [''bounds'', ''height''] = Inr bh"
  "read_path (full_state y1 y2 bx byy s1 s2 bw bh pw ph r) [''paddle'', ''w''] = Inr pw"
  "read_path (full_state y1 y2 bx byy s1 s2 bw bh pw ph r) [''paddle'', ''h''] = Inr ph"
  "read_path (full_state y1 y2 bx byy s1 s2 bw bh pw ph r) [''ballRadius''] = Inr r"
  by (simp_all add: full_state_def)

lemma value_at_full_state [simp]:
  "value_at (full_state y1 y2 bx byy s1 s2 bw bh pw ph r) [''players'', ''1'', ''y''] = y1"
  "value_at (full_state y1 y2 bx byy s1 s2 bw bh pw ph r) [''players'', ''2'', ''y''] = y2"
  "value_at (full_state y1 y2 bx byy s1 s2 bw bh pw ph r) [''ball'', ''x''] = bx"
  "value_at (full_state y1 y2 bx byy s1 s2 bw bh pw ph r) [''ball'', ''y''] = byy"
  "value_at (full_state y1 y2 bx byy s1 s2 bw bh pw ph r) [''score'', ''1''] = s1"
  "value_at (full_state y1 y2 bx byy s1 s2 bw bh pw ph r) [''score'', ''2''] = s2"
  "value_at (full_state y1 y2 bx byy s1 s2 bw bh pw ph r) [''bounds'', ''width''] = bw"
  "value_at (full_state y1 y2 bx byy s1 s2 bw bh pw ph r) [''bounds'', ''height''] = bh"
  "value_at (full_state y1 y2 bx byy s1 s2 bw bh pw ph r) [''paddle'', ''w''] = pw"
  "value_at (full_state y1 y2 bx byy s1 s2 bw bh pw ph r) [''paddle'', ''h''] = ph"
  "value_at (full_state y1 y2 bx byy s1 s2 bw bh pw ph r) [''ballRadius''] = r"
  by (simp_all add: full_state_def)

lemma ball_state_paths:
  "(\<forall>p \<in> set state_paths. P p) \<longleftrightarrow>
     P [''players'', ''1'', ''y''] \<and> P [''players'', ''2'', ''y''] \<and> P [''ball'', ''x'']
     \<and> P [''ball'', ''y''] \<and> P [''score'', ''1''] \<and> P [''score'', ''2'']
     \<and> P [''bounds'', ''width''] \<and> P [''bounds'', ''height''] \<and> P [''paddle'', ''w'']
     \<and> P [''paddle'', ''h''] \<and> P [''ballRadius'']"
  unfolding state_paths_def list.set ball_simps by (simp only: simp_thms)

text \<open>
  Claim C8. The client's fixed default state is the specified one: bounds 800 by 500,
  paddle 12 by 80, ball radius 8, both paddles at \<open>y = (height - paddle.h) / 2 = 210\<close>, the
  ball at the centre \<open>(800 / 2, 500 / 2) = (400, 250)\<close> of the bounds, and score 0 for both
  seats. It is also the state the client starts with.
\<close>

theorem defaultState_values:
  "\<exists>w h pw ph.
     read_path defaultState [''bounds'', ''width''] = Inr (JNum w) \<and> w = 800
     \<and> read_path defaultState [''bounds'', ''height''] = Inr (JNum h) \<and> h = 500
     \<and> read_path defaultState [''paddle'', ''w''] = Inr (JNum pw) \<and> pw = 12
     \<and> read_path defaultState [''paddle'', ''h''] = Inr (JNum ph) \<and> ph = 80
     \<and> read_path defaultState [''ballRadius''] = Inr (JNum 8)
     \<and> read_path defaultState [''players'', ''1'', ''y''] = Inr (JNum ((h - ph) / 2))
     \<and> read_path defaultState [''players'', ''2'', ''y''] = Inr (JNum ((h - ph) / 2))
     \<and> (h - ph) / 2 = 210
     \<and> read_path defaultState [''ball'', ''x''] = Inr (JNum (w / 2)) \<and> w / 2 = 400
     \<and> read_path defaultState [''ball'', ''y''] = Inr (JNum (h / 2)) \<and> h / 2 = 250
     \<and> read_path defaultState [''score'', ''1''] = Inr (JNum 0)
     \<and> read_path defaultState [''score'', ''2''] = Inr (JNum 0)
     \<and> state client0 = defaultState"
proof -
  have c: "state client0 = defaultState"
    by (simp add: client0_def)
  show ?thesis
    unfolding c unfolding defaultState_full read_path_full_state
    by (intro exI [of _ 800] exI [of _ 500] exI [of _ 12] exI [of _ 80]) simp
qed

theorem defaultState_values_witness:
  "read_path defaultState [''players'', ''1'', ''y''] = Inr (JNum 210)
   \<and> read_path defaultState [''ball'', ''x''] = Inr (JNum 400)
   \<and> read_path defaultState [''ball'', ''y''] = Inr (JNum 250)"
  using defaultState_values by simp

section \<open>What \<^verbatim>\<open>normaliseState\<close> computes\<close>

text \<open>
  The two resolvers and the six guarded reads never throw on a source that is not
  \<^verbatim>\<open>null\<close> or \<^verbatim>\<open>undefined\<close>, and each yields the value found in the source, or the
  default when that value is \<^verbatim>\<open>null\<close> or \<^verbatim>\<open>undefined\<close>.
\<close>

lemma resolvePlayerY_1:
  "\<not> nullish players \<Longrightarrow>
   resolvePlayerY players 1 = Inr (coalesce (field_of (field_of players ''1'') ''y'') (JNum 210))"
  by (simp add: resolvePlayerY_def get_key_def coalesce_def Let_def)

lemma resolvePlayerY_2:
  "\<not> nullish players \<Longrightarrow>
   resolvePlayerY players 2 = Inr (coalesce (field_of (field_of players ''2'') ''y'') (JNum 210))"
  by (simp add: resolvePlayerY_def get_key_def coalesce_def Let_def)

lemma resolveScore_1:
  "\<not> nullish score \<Longrightarrow> resolveScore score 1 = Inr (coalesce (field_of score ''1'') (JNum 0))"
  by (simp add: resolveScore_def get_key_def coalesce_def Let_def)

lemma resolveScore_2:
  "\<not> nullish score \<Longrightarrow> resolveScore score 2 = Inr (coalesce (field_of score ''2'') (JNum 0))"
  by (simp add: resolveScore_def get_key_def coalesce_def Let_def)

lemma part_or_default_eq:
  "\<not> nullish source \<Longrightarrow> \<not> nullish (field_of defaultState part) \<Longrightarrow>
   part_or_default source part k =
     Inr (coalesce (field_of (field_of source part) k) (field_of (field_of defaultState part) k))"
  by (simp add: part_or_default_def coalesce_def)

lemma normaliseState_unfold:
  "normaliseState x =
     (let source = coalesce x (JObj []);
          players = coalesce (field_of source ''players'') (JObj []);
          score = coalesce (field_of source ''score'') (JObj []) in
      and_then (resolvePlayerY players 1) (\<lambda>y1.
      and_then (resolvePlayerY players 2) (\<lambda>y2.
      and_then (part_or_default source ''ball'' ''x'') (\<lambda>bx.
      and_then (part_or_default source ''ball'' ''y'') (\<lambda>byy.
      and_then (resolveScore score 1) (\<lambda>s1.
      and_then (resolveScore score 2) (\<lambda>s2.
      and_then (part_or_default source ''bounds'' ''width'') (\<lambda>bw.
      and_then (part_or_default source ''bounds'' ''height'') (\<lambda>bh.
      and_then (part_or_default source ''paddle'' ''w'') (\<lambda>pw.
      and_then (part_or_default source ''paddle'' ''h'') (\<lambda>ph.
        Inr (full_state y1 y2 bx byy s1 s2 bw bh pw ph
              (coalesce (field_of source ''ballRadius'') (JNum 8))))))))))))))"
proof -
  have s: "\<not> nullish (coalesce x (JObj []))"
    by (simp add: coalesce_not_nullish)
  show ?thesis
    unfolding normaliseState_def Let_def get_ok [OF s] and_then_simps get_ok [OF default_fields(7)] default_fields
    by (rule refl)
qed

text \<open>
  The result of \<^verbatim>\<open>normaliseState\<close> in closed form, for every input value.
\<close>

lemma normaliseState_eq:
  "normaliseState x = Inr (full_state
     (coalesce (value_at x [''players'', ''1'', ''y'']) (JNum 210))
     (coalesce (value_at x [''players'', ''2'', ''y'']) (JNum 210))
     (coalesce (value_at x [''ball'', ''x'']) (JNum 400))
     (coalesce (value_at x [''ball'', ''y'']) (JNum 250))
     (coalesce (value_at x [''score'', ''1'']) (JNum 0))
     (coalesce (value_at x [''score'', ''2'']) (JNum 0))
     (coalesce (value_at x [''bounds'', ''width'']) (JNum 800))
     (coalesce (value_at x [''bounds'', ''height'']) (JNum 500))
     (coalesce (value_at x [''paddle'', ''w'']) (JNum 12))
     (coalesce (value_at x [''paddle'', ''h'']) (JNum 80))
     (coalesce (value_at x [''ballRadius'']) (JNum 8)))"
proof -
  define source where "source = coalesce x (JObj [])"
  define players where "players = coalesce (field_of source ''players'') (JObj [])"
  define score where "score = coalesce (field_of source ''score'') (JObj [])"
  have s: "\<not> nullish source" and p: "\<not> nullish players" and c: "\<not> nullish score"
    by (simp_all add: source_def players_def score_def coalesce_not_nullish)
  have v1: "value_at x (k # ks) = value_at (field_of source k) ks" for k ks
    by (simp add: source_def coalesce_def)
  have v2: "value_at (field_of source ''players'') (k # ks) = value_at (field_of players k) ks" for k ks
    by (simp add: players_def coalesce_def)
  have v3: "value_at (field_of source ''score'') (k # ks) = value_at (field_of score k) ks" for k ks
    by (simp add: score_def coalesce_def)
  have v4: "value_at v [k] = field_of v k" for v k
    by simp
  have d: "\<not> nullish (field_of defaultState ''ball'')" "\<not> nullish (field_of defaultState ''bounds'')"
    "\<not> nullish (field_of defaultState ''paddle'')"
    by simp_all
  have f: "field_of (field_of defaultState ''ball'') ''x'' = JNum 400"
    "field_of (field_of defaultState ''ball'') ''y'' = JNum 250"
    "field_of (field_of defaultState ''bounds'') ''width'' = JNum 800"
    "field_of (field_of defaultState ''bounds'') ''height'' = JNum 500"
    "field_of (field_of defaultState ''paddle'') ''w'' = JNum 12"
    "field_of (field_of defaultState ''paddle'') ''h'' = JNum 80"
    by simp_all
  show ?thesis
    unfolding normaliseState_unfold Let_def source_def [symmetric]
    unfolding players_def [symmetric] score_def [symmetric]
    unfolding resolvePlayerY_1 [OF p] resolvePlayerY_2 [OF p] resolveScore_1 [OF c]
      resolveScore_2 [OF c] part_or_default_eq [OF s d(1)] part_or_default_eq [OF s d(2)]
      part_or_default_eq [OF s d(3)] and_then_simps f
    unfolding v1
    unfolding v2 v3
    unfolding v4 value_at.simps(1)
    by (rule refl)
qed

lemma normaliseState_ok: "\<exists>s. normaliseState x = Inr s"
  unfolding normaliseState_eq [of x] by blast

lemma normaliseState_full_state:
  assumes "\<not> nullish y1" "\<not> nullish y2" "\<not> nullish bx" "\<not> nullish byy" "\<not> nullish s1"
    "\<not> nullish s2" "\<not> nullish bw" "\<not> nullish bh" "\<not> nullish pw" "\<not> nullish ph" "\<not> nullish r"
  shows "normaliseState (full_state y1 y2 bx byy s1 s2 bw bh pw ph r) =
    Inr (full_state y1 y2 bx byy s1 s2 bw bh pw ph r)"
  unfolding normaliseState_eq value_at_full_state using assms by (simp add: coalesce_def)

lemma resolved_full_state:
  assumes "\<not> nullish y1" "\<not> nullish y2" "\<not> nullish bx" "\<not> nullish byy" "\<not> nullish s1"
    "\<not> nullish s2" "\<not> nullish bw" "\<not> nullish bh" "\<not> nullish pw" "\<not> nullish ph" "\<not> nullish r"
  shows "\<forall>p \<in> set state_paths.
     \<exists>v. read_path (full_state y1 y2 bx byy s1 s2 bw bh pw ph r) p = Inr v \<and> \<not> nullish v"
  unfolding ball_state_paths read_path_full_state using assms by simp

text \<open>
  Claim C1. The normalisation is idempotent, and it maps the empty snapshot to the
  default state: for every input \<open>x\<close>, \<^verbatim>\<open>normaliseState(x)\<close> returns a state \<open>s\<close> and
  \<^verbatim>\<open>normaliseState(s)\<close> returns \<open>s\<close> again, so that
  \<^verbatim>\<open>normaliseState(normaliseState(x))\<close> equals \<^verbatim>\<open>normaliseState(x)\<close>; and
  \<^verbatim>\<open>normaliseState({})\<close> is \<^verbatim>\<open>defaultState\<close>.
\<close>

theorem normaliseState_idempotent:
  "(\<exists>s. normaliseState x = Inr s \<and> normaliseState s = Inr s)
   \<and> and_then (normaliseState x) normaliseState = normaliseState x
   \<and> normaliseState (JObj []) = Inr defaultState"
proof (intro conjI)
  have again: "and_then (normaliseState x) normaliseState = normaliseState x"
    unfolding normaliseState_eq [of x] and_then_simps
    by (rule normaliseState_full_state) (simp_all add: coalesce_not_nullish)
  obtain s where s: "normaliseState x = Inr s"
    using normaliseState_ok by blast
  have "normaliseState s = Inr s"
    using again unfolding s by simp
  then show "\<exists>s. normaliseState x = Inr s \<and> normaliseState s = Inr s"
    using s by blast
  show "and_then (normaliseState x) normaliseState = normaliseState x"
    by (rule again)
  show "normaliseState (JObj []) = Inr defaultState"
    unfolding normaliseState_eq defaultState_full by (simp add: coalesce_def)
qed

theorem normaliseState_idempotent_witness:
  "normaliseState (JObj [(''ballRadius'', JNum 3)])
     = Inr (full_state (JNum 210) (JNum 210) (JNum 400) (JNum 250) (JNum 0) (JNum 0)
         (JNum 800) (JNum 500) (JNum 12) (JNum 80) (JNum 3))
   \<and> normaliseState (full_state (JNum 210) (JNum 210) (JNum 400) (JNum 250) (JNum 0) (JNum 0)
         (JNum 800) (JNum 500) (JNum 12) (JNum 80) (JNum 3))
     = Inr (full_state (JNum 210) (JNum 210) (JNum 400) (JNum 250) (JNum 0) (JNum 0)
         (JNum 800) (JNum 500) (JNum 12) (JNum 80) (JNum 3))"
proof -
  let ?x = "JObj [(''ballRadius'', JNum 3)]"
  let ?s = "full_state (JNum 210) (JNum 210) (JNum 400) (JNum 250) (JNum 0) (JNum 0)
         (JNum 800) (JNum 500) (JNum 12) (JNum 80) (JNum 3)"
  have x: "normaliseState ?x = Inr ?s"
    unfolding normaliseState_eq [of ?x] by (simp add: coalesce_def)
  obtain s where "normaliseState ?x = Inr s" "normaliseState s = Inr s"
    using normaliseState_idempotent [of ?x] by blast
  then have "normaliseState ?s = Inr ?s"
    unfolding x by simp
  then show ?thesis using x by blast
qed

text \<open>
  Claim C2. \<^verbatim>\<open>normaliseState\<close> is total: for every input value (\<^verbatim>\<open>null\<close>, \<^verbatim>\<open>undefined\<close>, a
  value that is no object, an object whose parts are missing, null or of the wrong
  shape) it returns without throwing, and each of the eleven fields of the full state
  shape can be read from its result, as the drawing code reads them, and is neither
  \<^verbatim>\<open>null\<close> nor \<^verbatim>\<open>undefined\<close>.
\<close>

theorem normaliseState_total:
  "\<exists>s. normaliseState x = Inr s
     \<and> (\<forall>p \<in> set state_paths. \<exists>v. read_path s p = Inr v \<and> \<not> nullish v)"
  unfolding normaliseState_eq [of x]
  by (rule exI, rule conjI, rule refl, rule resolved_full_state)
     (simp_all add: coalesce_not_nullish)

theorem normaliseState_total_witness:
  "\<exists>s. normaliseState (JStr ''abc'') = Inr s
     \<and> (\<exists>v. read_path s [''players'', ''1'', ''y''] = Inr v \<and> \<not> nullish v)
     \<and> (\<exists>v. read_path s [''ballRadius''] = Inr v \<and> \<not> nullish v)"
  using normaliseState_total [of "JStr ''abc''"] by (auto simp: state_paths_def)

text \<open>
  Claim C4. \<^verbatim>\<open>normaliseState\<close> fills field by field: for every snapshot and each of the
  eleven fields, the field of the result is the snapshot's value for it when that value
  is present and not null, and is the field of \<^verbatim>\<open>defaultState\<close> when the value is absent
  or null, whatever the other fields are.
\<close>

theorem normaliseState_fills:
  "\<exists>s. normaliseState x = Inr s
     \<and> (\<forall>p \<in> set state_paths.
          read_path s p =
            (if nullish (value_at x p) then read_path defaultState p else Inr (value_at x p)))"
proof -
  have "\<forall>p \<in> set state_paths.
     read_path (full_state
       (coalesce (value_at x [''players'', ''1'', ''y'']) (JNum 210))
       (coalesce (value_at x [''players'', ''2'', ''y'']) (JNum 210))
       (coalesce (value_at x [''ball'', ''x'']) (JNum 400))
       (coalesce (value_at x [''ball'', ''y'']) (JNum 250))
       (coalesce (value_at x [''score'', ''1'']) (JNum 0))
       (coalesce (value_at x [''score'', ''2'']) (JNum 0))
       (coalesce (value_at x [''bounds'', ''width'']) (JNum 800))
       (coalesce (value_at x [''bounds'', ''height'']) (JNum 500))
       (coalesce (value_at x [''paddle'', ''w'']) (JNum 12))
       (coalesce (value_at x [''paddle'', ''h'']) (JNum 80))
       (coalesce (value_at x [''ballRadius'']) (JNum 8))) p =
     (if nullish (value_at x p) then read_path defaultState p else Inr (value_at x p))"
    unfolding ball_state_paths defaultState_full read_path_full_state coalesce_def
    by simp
  then show ?thesis
    unfolding normaliseState_eq [of x] by blast
qed

theorem normaliseState_fills_witness:
  "\<exists>s. normaliseState (JObj [(''ball'', JObj [(''x'', JNum 5), (''y'', JNull)])]) = Inr s
     \<and> read_path s [''ball'', ''x''] = Inr (JNum 5)
     \<and> read_path s [''ball'', ''y''] = Inr (JNum 250)
     \<and> read_path s [''paddle'', ''w''] = Inr (JNum 12)"
proof -
  let ?x = "JObj [(''ball'', JObj [(''x'', JNum 5), (''y'', JNull)])]"
  obtain s where s: "normaliseState ?x = Inr s"
    and f: "\<forall>p \<in> set state_paths. read_path s p =
            (if nullish (value_at ?x p) then read_path defaultState p else Inr (value_at ?x p))"
    using normaliseState_fills [of ?x] by blast
  have "read_path s [''ball'', ''x''] = Inr (JNum 5)"
    using f [unfolded ball_state_paths] by simp
  moreover have "read_path s [''ball'', ''y''] = Inr (JNum 250)"
    using f [unfolded ball_state_paths] by (simp add: defaultState_full read_path_full_state del: read_path.simps)
  moreover have "read_path s [''paddle'', ''w''] = Inr (JNum 12)"
    using f [unfolded ball_state_paths] by (simp add: defaultState_full read_path_full_state del: read_path.simps)
  ultimately show ?thesis using s by blast
qed

section \<open>Numeric and string seat keys\<close>

lemma snapshot_keyed_eq:
  "snapshot_keyed a b p1 p2 s1 s2 rest =
     JObj ((''players'', JObj [(''1'', p1), (''2'', p2)])
         # (''score'', JObj [(''1'', s1), (''2'', s2)]) # rest)"
  by (simp add: snapshot_keyed_def seat_key_def mk_object_def)

lemma value_at_snapshot_keyed:
  "value_at (snapshot_keyed a b p1 p2 s1 s2 rest) [''players'', ''1'', ''y''] = value_at p1 [''y'']"
  "value_at (snapshot_keyed a b p1 p2 s1 s2 rest) [''players'', ''2'', ''y''] = value_at p2 [''y'']"
  "value_at (snapshot_keyed a b p1 p2 s1 s2 rest) [''score'', ''1''] = s1"
  "value_at (snapshot_keyed a b p1 p2 s1 s2 rest) [''score'', ''2''] = s2"
  by (simp_all add: snapshot_keyed_eq)

text \<open>
  Claim C3. Two snapshots that differ only in whether the keys of \<^verbatim>\<open>players\<close> and of
  \<^verbatim>\<open>score\<close> are the numbers 1 and 2 or the strings "1" and "2" are normalised to the same
  result, and either way the entries are accepted: the result carries each seat's \<^verbatim>\<open>y\<close>
  and score from the snapshot (the default where it is absent or null).
\<close>

theorem seat_keys_numeric_or_string:
  "normaliseState (snapshot_keyed a b p1 p2 s1 s2 rest)
     = normaliseState (snapshot_keyed a' b' p1 p2 s1 s2 rest)
   \<and> (\<exists>out. normaliseState (snapshot_keyed a b p1 p2 s1 s2 rest) = Inr out
        \<and> read_path out [''players'', ''1'', ''y''] = Inr (coalesce (value_at p1 [''y'']) (JNum 210))
        \<and> read_path out [''players'', ''2'', ''y''] = Inr (coalesce (value_at p2 [''y'']) (JNum 210))
        \<and> read_path out [''score'', ''1''] = Inr (coalesce s1 (JNum 0))
        \<and> read_path out [''score'', ''2''] = Inr (coalesce s2 (JNum 0)))"
proof
  show "normaliseState (snapshot_keyed a b p1 p2 s1 s2 rest)
     = normaliseState (snapshot_keyed a' b' p1 p2 s1 s2 rest)"
    by (simp only: snapshot_keyed_eq)
  show "\<exists>out. normaliseState (snapshot_keyed a b p1 p2 s1 s2 rest) = Inr out
        \<and> read_path out [''players'', ''1'', ''y''] = Inr (coalesce (value_at p1 [''y'']) (JNum 210))
        \<and> read_path out [''players'', ''2'', ''y''] = Inr (coalesce (value_at p2 [''y'']) (JNum 210))
        \<and> read_path out [''score'', ''1''] = Inr (coalesce s1 (JNum 0))
        \<and> read_path out [''score'', ''2''] = Inr (coalesce s2 (JNum 0))"
    unfolding normaliseState_eq [of "snapshot_keyed a b p1 p2 s1 s2 rest"] value_at_snapshot_keyed
    by (intro exI conjI, rule refl) (simp_all only: read_path_full_state)
qed

theorem seat_keys_numeric_or_string_witness:
  "normaliseState (snapshot_keyed True True (JObj [(''y'', JNum 7)]) JNull (JNum 3) JUndefined [])
     = normaliseState (snapshot_keyed False False (JObj [(''y'', JNum 7)]) JNull (JNum 3) JUndefined [])
   \<and> (\<exists>out. normaliseState (snapshot_keyed False False (JObj [(''y'', JNum 7)]) JNull (JNum 3) JUndefined []) = Inr out
        \<and> read_path out [''players'', ''1'', ''y''] = Inr (JNum 7)
        \<and> read_path out [''players'', ''2'', ''y''] = Inr (JNum 210)
        \<and> read_path out [''score'', ''1''] = Inr (JNum 3)
        \<and> read_path out [''score'', ''2''] = Inr (JNum 0))"
  using seat_keys_numeric_or_string [of True True "JObj [(''y'', JNum 7)]" JNull "JNum 3" JUndefined "[]" False False]
    seat_keys_numeric_or_string [of False False "JObj [(''y'', JNum 7)]" JNull "JNum 3" JUndefined "[]" False False]
  by (simp add: coalesce_def)

section \<open>Sending the intent\<close>

lemma socket_open_simps [simp]:
  "socket_open (c\<lparr>inputRef := i\<rparr>) = socket_open c"
  "socket_open (c\<lparr>keysRef := k\<rparr>) = socket_open c"
  "socket_open (c\<lparr>assignedPlayer := a\<rparr>) = socket_open c"
  "socket_open (c\<lparr>state := s\<rparr>) = socket_open c"
  "socket_open (c\<lparr>queuedPlayer := qp\<rparr>) = socket_open c"
  "socket_open (c\<lparr>queuedState := qs\<rparr>) = socket_open c"
  "socket_open (c\<lparr>resendDue := r\<rparr>) = socket_open c"
  "socket_open (c\<lparr>sent := ms\<rparr>) = socket_open c"
  "\<not> socket_open (c\<lparr>wsRef := None\<rparr>)"
  by (simp_all add: socket_open_def)

lemma updateInput_fields [simp]:
  "inputRef (updateInput u d c) = \<lparr>up = u, down = d\<rparr>"
  "keysRef (updateInput u d c) = keysRef c"
  "assignedPlayer (updateInput u d c) = assignedPlayer c"
  "state (updateInput u d c) = state c"
  "queuedPlayer (updateInput u d c) = queuedPlayer c"
  "queuedState (updateInput u d c) = queuedState c"
  "resendDue (updateInput u d c) = resendDue c"
  "wsRef (updateInput u d c) = wsRef c"
  "sent (updateInput u d c) =
     (if socket_open c
      then sent c @ [JObj [(''type'', JStr ''input''), (''up'', JBool u), (''down'', JBool d)]]
      else sent c)"
  by (simp_all add: updateInput_def Let_def)

lemma resendCurrentInput_fields [simp]:
  "inputRef (resendCurrentInput c) = inputRef c"
  "keysRef (resendCurrentInput c) = keysRef c"
  "assignedPlayer (resendCurrentInput c) = assignedPlayer c"
  "state (resendCurrentInput c) = state c"
  "queuedPlayer (resendCurrentInput c) = queuedPlayer c"
  "queuedState (resendCurrentInput c) = queuedState c"
  "resendDue (resendCurrentInput c) = resendDue c"
  "wsRef (resendCurrentInput c) = wsRef c"
  "sent (resendCurrentInput c) =
     (if socket_open c
      then sent c @ [JObj [(''type'', JStr ''input''), (''up'', JBool (up (inputRef c))),
                           (''down'', JBool (down (inputRef c)))]]
      else sent c)"
  by (simp_all add: resendCurrentInput_def)

lemma run_effects_fields [simp]:
  "inputRef (run_effects c) = inputRef c"
  "keysRef (run_effects c) = keysRef c"
  "assignedPlayer (run_effects c) = assignedPlayer c"
  "state (run_effects c) = state c"
  "queuedPlayer (run_effects c) = queuedPlayer c"
  "queuedState (run_effects c) = queuedState c"
  "wsRef (run_effects c) = wsRef c"
  "\<not> resendDue (run_effects c)"
  "socket_open (run_effects c) = socket_open c"
  by (simp_all add: run_effects_def socket_open_def)

lemma run_effects_sent:
  "sent (run_effects c) =
     (if resendDue c \<and> socket_open c
      then sent c @ [JObj [(''type'', JStr ''input''), (''up'', JBool (up (inputRef c))),
                           (''down'', JBool (down (inputRef c)))]]
      else sent c)"
  by (simp add: run_effects_def)

lemma run_effects_idle [simp]: "\<not> resendDue c \<Longrightarrow> run_effects c = c"
  by (simp add: run_effects_def)

lemma render_fields [simp]:
  "inputRef (render c) = inputRef c"
  "keysRef (render c) = keysRef c"
  "wsRef (render c) = wsRef c"
  "sent (render c) = sent (run_effects c)"
  "queuedPlayer (render c) = None"
  "queuedState (render c) = None"
  "assignedPlayer (render c) = (case queuedPlayer c of None \<Rightarrow> assignedPlayer c | Some v \<Rightarrow> v)"
  "state (render c) = (case queuedState c of None \<Rightarrow> state c | Some s \<Rightarrow> s)"
  "resendDue (render c) =
     (case queuedPlayer c of None \<Rightarrow> False | Some v \<Rightarrow> \<not> role_unchanged (assignedPlayer c) v)"
  "socket_open (render c) = socket_open c"
  by (simp_all add: render_def Let_def socket_open_def split: option.split)

text \<open>
  The comparison of roles is that of \<^verbatim>\<open>Object.is\<close>: \<^verbatim>\<open>0\<close> and \<^verbatim>\<open>-0\<close> differ, and a
  freshly parsed object differs from every earlier value, also from an equal one.
\<close>

lemma negative_zero_is_a_change:
  "\<not> role_unchanged (JNum 0) JNegZero" "\<not> role_unchanged JNegZero (JNum 0)"
  "role_unchanged (JNum 1) (JNum 1)" "\<not> role_unchanged (JObj []) (JObj [])"
  by (simp_all add: role_unchanged_def)

lemma keyMap_lookup_examples:
  "keyMap_lookup ''KeyW'' = Mapped Up" "keyMap_lookup ''KeyS'' = Mapped Down"
  "keyMap_lookup ''ArrowUp'' = Mapped Up" "keyMap_lookup ''ArrowDown'' = Mapped Down"
  "keyMap_lookup ''KeyA'' = Mapped Up" "keyMap_lookup ''KeyD'' = Mapped Down"
  "keyMap_lookup ''Space'' = Missing" "keyMap_lookup ''constructor'' = Inherited"
  by (simp_all add: keyMap_lookup_def keyMap_def object_prototype_names_def)

text \<open>
  The message listener, case by case: a text that is not JSON and the JSON text
  \<^verbatim>\<open>null\<close> make it throw; otherwise it looks at \<^verbatim>\<open>data.type\<close> only. It never sends.
\<close>

lemma on_message_cases:
  "on_message None c = Inl SyntaxError"
  "nullish d \<Longrightarrow> on_message (Some d) c = Inl TypeError"
  "\<not> nullish d \<Longrightarrow> field_of d ''type'' = JStr ''assign'' \<Longrightarrow>
     on_message (Some d) c =
       Inr (setAssignedPlayer
             (if field_of d ''player'' = JNull then JStr ''spectator'' else field_of d ''player'') c)"
  "\<not> nullish d \<Longrightarrow> field_of d ''type'' = JStr ''state'' \<Longrightarrow> normaliseState d = Inr s \<Longrightarrow>
     on_message (Some d) c = Inr (setState s c)"
  "\<not> nullish d \<Longrightarrow> field_of d ''type'' \<noteq> JStr ''assign'' \<Longrightarrow>
     field_of d ''type'' \<noteq> JStr ''state'' \<Longrightarrow> on_message (Some d) c = Inr c"
  by (simp_all add: on_message_def get_def)

lemma step_message_sent: "sent (step (Message parsed) c) = sent c"
proof (cases parsed)
  case None
  then show ?thesis by (simp add: on_message_cases)
next
  case (Some d)
  show ?thesis
  proof (cases "nullish d")
    case True
    then show ?thesis using Some by (simp add: on_message_cases)
  next
    case False
    obtain s where s: "normaliseState d = Inr s" using normaliseState_ok by blast
    consider "field_of d ''type'' = JStr ''assign''" | "field_of d ''type'' = JStr ''state''"
      | "field_of d ''type'' \<noteq> JStr ''assign''" "field_of d ''type'' \<noteq> JStr ''state''"
      by blast
    then show ?thesis
    proof cases
      case 1
      then show ?thesis using Some False
        by (simp add: on_message_cases setAssignedPlayer_def)
    next
      case 2
      then show ?thesis using Some False s
        by (simp add: on_message_cases setState_def)
    next
      case 3
      then show ?thesis using Some False
        by (simp add: on_message_cases)
    qed
  qed
qed

lemma sent_current_handleKey: "sent_current_intent c (handleKey code b c)"
  unfolding handleKey_def Let_def
  by (auto split: lookup.split simp: sent_current_intent_def)

lemma sent_current_step: "sent_current_intent c (step e c)"
proof (cases e)
  case Tick
  then show ?thesis
    by (simp add: sent_current_intent_def input_timer_def interval_callback_def)
next
  case (KeyDown code)
  then show ?thesis by (simp add: sent_current_handleKey)
next
  case (KeyUp code)
  then show ?thesis by (simp add: sent_current_handleKey)
next
  case (Message parsed)
  then show ?thesis
    by (simp only: sent_current_intent_def step_message_sent simp_thms)
next
  case (Ready rs)
  then show ?thesis by (simp add: sent_current_intent_def)
next
  case Close
  then show ?thesis
    by (simp add: on_close_def setAssignedPlayer_def sent_current_intent_def)
next
  case Render
  then show ?thesis
    by (simp add: sent_current_intent_def run_effects_sent)
next
  case Effects
  then show ?thesis
    by (simp add: sent_current_intent_def run_effects_sent)
qed

lemma run_sent_input_messages:
  "\<forall>m \<in> set (sent c). \<exists>u d. m = JObj [(''type'', JStr ''input''), (''up'', JBool u), (''down'', JBool d)] \<Longrightarrow>
   \<forall>m \<in> set (sent (run es c)). \<exists>u d. m = JObj [(''type'', JStr ''input''), (''up'', JBool u), (''down'', JBool d)]"
proof (induction es arbitrary: c)
  case Nil
  then show ?case by simp
next
  case (Cons e es)
  have "sent (step e c) = sent c
      \<or> (\<exists>u d. sent (step e c) = sent c @ [JObj [(''type'', JStr ''input''), (''up'', JBool u), (''down'', JBool d)]])"
    using sent_current_step [of c e] unfolding sent_current_intent_def by blast
  then have "\<forall>m \<in> set (sent (step e c)).
      \<exists>u d. m = JObj [(''type'', JStr ''input''), (''up'', JBool u), (''down'', JBool d)]"
    using Cons.prems by (auto; blast)
  then show ?case using Cons.IH by simp
qed

lemma handleKey_socket_not_open:
  "\<not> socket_open c \<Longrightarrow> sent (handleKey code b c) = sent c"
  by (simp add: handleKey_def Let_def split: lookup.split)

text \<open>
  The delay of the timer is the double nearest to \<open>1000 / 30\<close>, which prints as
  \<^verbatim>\<open>33.333333333333336\<close>. The quotients of the default state are whole numbers, which
  the rounding leaves as they are.
\<close>

lemma INPUT_INTERVAL_value: "INPUT_INTERVAL = 4691249611844267 / 140737488355328"
  by code_simp

lemma default_quotients_exact:
  "to_double ((500 - 80) / 2) = (500 - 80) / 2" "to_double (800 / 2) = 800 / 2"
  "to_double (500 / 2) = 500 / 2"
  by code_simp+

text \<open>
  Claim C5, as the code has it. Every input message the client sends is the full
  current intent \<^verbatim>\<open>{ type: 'input', up, down }\<close>, never a delta: whatever happens to the
  client, it sends nothing or exactly one message, the object with the three
  properties \<^verbatim>\<open>type: 'input'\<close>, \<^verbatim>\<open>up\<close> and \<^verbatim>\<open>down\<close> of the intent it then stores, and
  everything a mounted client has ever sent is such an object. The repeating timer that
  sends is set with the delay \<^verbatim>\<open>1000 / 30\<close> milliseconds, as a double, which is 30 firings
  per second up to rounding. While the socket is open, each firing of that timer sends
  the current intent, and each key event that changes the intent sends the new intent
  at once. While the socket is not open, neither sends anything.
\<close>

theorem input_sends_current_intent:
  "fst input_timer = INPUT_INTERVAL
   \<and> INPUT_INTERVAL = 4691249611844267 / 140737488355328
   \<and> \<bar>INPUT_INTERVAL - 1000 / 30\<bar> < 1 / 10 ^ 14
   \<and> \<bar>1000 / INPUT_INTERVAL - 30\<bar> < 1 / 10 ^ 14
   \<and> (sent (step e c) = sent c
       \<or> sent (step e c) = sent c @
            [JObj [(''type'', JStr ''input''), (''up'', JBool (up (inputRef (step e c)))),
                   (''down'', JBool (down (inputRef (step e c))))]])
   \<and> (\<forall>m \<in> set (sent (run es client0)).
         \<exists>u d. m = JObj [(''type'', JStr ''input''), (''up'', JBool u), (''down'', JBool d)])
   \<and> (socket_open c \<longrightarrow>
        sent (step Tick c) = sent c @
          [JObj [(''type'', JStr ''input''), (''up'', JBool (up (inputRef c))),
                 (''down'', JBool (down (inputRef c)))]]
        \<and> inputRef (step Tick c) = inputRef c)
   \<and> (socket_open c \<and> k \<in> {KeyDown code, KeyUp code}
        \<and> (up (keysRef (step k c)), down (keysRef (step k c))) \<noteq> (up (keysRef c), down (keysRef c)) \<longrightarrow>
        sent (step k c) = sent c @
          [JObj [(''type'', JStr ''input''), (''up'', JBool (up (keysRef (step k c)))),
                 (''down'', JBool (down (keysRef (step k c))))]]
        \<and> inputRef (step k c) = \<lparr>up = up (keysRef (step k c)), down = down (keysRef (step k c))\<rparr>)
   \<and> (\<not> socket_open c \<and> k \<in> {Tick, KeyDown code, KeyUp code} \<longrightarrow> sent (step k c) = sent c)"
proof (intro conjI)
  show "fst input_timer = INPUT_INTERVAL"
    by (simp add: input_timer_def)
  show "INPUT_INTERVAL = 4691249611844267 / 140737488355328"
    by (rule INPUT_INTERVAL_value)
  show "\<bar>INPUT_INTERVAL - 1000 / 30\<bar> < 1 / 10 ^ 14"
    unfolding INPUT_INTERVAL_value by simp
  show "\<bar>1000 / INPUT_INTERVAL - 30\<bar> < 1 / 10 ^ 14"
    unfolding INPUT_INTERVAL_value by simp
  show "sent (step e c) = sent c
       \<or> sent (step e c) = sent c @
            [JObj [(''type'', JStr ''input''), (''up'', JBool (up (inputRef (step e c)))),
                   (''down'', JBool (down (inputRef (step e c))))]]"
    using sent_current_step [of c e] unfolding sent_current_intent_def .
  show "\<forall>m \<in> set (sent (run es client0)).
         \<exists>u d. m = JObj [(''type'', JStr ''input''), (''up'', JBool u), (''down'', JBool d)]"
    by (rule run_sent_input_messages) (simp add: client0_def)
  show "socket_open c \<longrightarrow>
        sent (step Tick c) = sent c @
          [JObj [(''type'', JStr ''input''), (''up'', JBool (up (inputRef c))),
                 (''down'', JBool (down (inputRef c)))]]
        \<and> inputRef (step Tick c) = inputRef c"
    by (simp add: input_timer_def interval_callback_def)
  have key: "socket_open c \<Longrightarrow>
      (up (keysRef (handleKey code b c)), down (keysRef (handleKey code b c)))
        \<noteq> (up (keysRef c), down (keysRef c)) \<Longrightarrow>
      sent (handleKey code b c) = sent c @
        [JObj [(''type'', JStr ''input''), (''up'', JBool (up (keysRef (handleKey code b c)))),
               (''down'', JBool (down (keysRef (handleKey code b c))))]]
      \<and> inputRef (handleKey code b c) =
          \<lparr>up = up (keysRef (handleKey code b c)), down = down (keysRef (handleKey code b c))\<rparr>" for b
    unfolding handleKey_def Let_def
    by (auto split: lookup.splits if_splits)
  show "socket_open c \<and> k \<in> {KeyDown code, KeyUp code}
        \<and> (up (keysRef (step k c)), down (keysRef (step k c))) \<noteq> (up (keysRef c), down (keysRef c)) \<longrightarrow>
        sent (step k c) = sent c @
          [JObj [(''type'', JStr ''input''), (''up'', JBool (up (keysRef (step k c)))),
                 (''down'', JBool (down (keysRef (step k c))))]]
        \<and> inputRef (step k c) = \<lparr>up = up (keysRef (step k c)), down = down (keysRef (step k c))\<rparr>"
    using key [of True] key [of False] by auto
  show "\<not> socket_open c \<and> k \<in> {Tick, KeyDown code, KeyUp code} \<longrightarrow> sent (step k c) = sent c"
    by (auto simp: handleKey_socket_not_open input_timer_def interval_callback_def)
qed

theorem input_sends_current_intent_witness:
  "socket_open (client0\<lparr>wsRef := Some OPEN\<rparr>)
   \<and> sent (step Tick (client0\<lparr>wsRef := Some OPEN\<rparr>))
       = [JObj [(''type'', JStr ''input''), (''up'', JBool False), (''down'', JBool False)]]
   \<and> sent (step (KeyDown ''KeyW'') (client0\<lparr>wsRef := Some OPEN\<rparr>))
       = [JObj [(''type'', JStr ''input''), (''up'', JBool True), (''down'', JBool False)]]
   \<and> inputRef (step (KeyDown ''KeyW'') (client0\<lparr>wsRef := Some OPEN\<rparr>)) = \<lparr>up = True, down = False\<rparr>
   \<and> (\<exists>u d. sent (run [Ready OPEN, KeyDown ''KeyS'', Tick] client0)
          = [JObj [(''type'', JStr ''input''), (''up'', JBool u), (''down'', JBool d)],
             JObj [(''type'', JStr ''input''), (''up'', JBool u), (''down'', JBool d)]])
   \<and> sent (step Tick client0) = []"
proof -
  let ?c = "client0\<lparr>wsRef := Some OPEN\<rparr>"
  let ?k = "KeyDown ''KeyW''"
  note t = input_sends_current_intent [of Tick ?c "[Ready OPEN, KeyDown ''KeyS'', Tick]" ?k "''KeyW''"]
  have o: "socket_open ?c"
    by (simp add: socket_open_def)
  have kr: "keysRef (step ?k ?c) = \<lparr>up = True, down = False, others = []\<rparr>"
    by (simp add: handleKey_def keyMap_lookup_examples Let_def client0_def)
  have ch: "(up (keysRef (step ?k ?c)), down (keysRef (step ?k ?c))) \<noteq> (up (keysRef ?c), down (keysRef ?c))"
    unfolding kr by (simp add: client0_def)
  have 1: "sent (step Tick ?c) = sent ?c @
      [JObj [(''type'', JStr ''input''), (''up'', JBool (up (inputRef ?c))),
             (''down'', JBool (down (inputRef ?c)))]]"
    using t o by blast
  have 2: "sent (step ?k ?c) = sent ?c @
      [JObj [(''type'', JStr ''input''), (''up'', JBool (up (keysRef (step ?k ?c)))),
             (''down'', JBool (down (keysRef (step ?k ?c))))]]
      \<and> inputRef (step ?k ?c) = \<lparr>up = up (keysRef (step ?k ?c)), down = down (keysRef (step ?k ?c))\<rparr>"
    using t o ch by blast
  have 3: "sent (run [Ready OPEN, KeyDown ''KeyS'', Tick] client0)
      = [JObj [(''type'', JStr ''input''), (''up'', JBool False), (''down'', JBool True)],
         JObj [(''type'', JStr ''input''), (''up'', JBool False), (''down'', JBool True)]]"
    by (simp add: handleKey_def keyMap_lookup_examples Let_def client0_def socket_open_def
        input_timer_def interval_callback_def updateInput_def)
  have a: "sent (step Tick ?c)
      = [JObj [(''type'', JStr ''input''), (''up'', JBool False), (''down'', JBool False)]]"
    using 1 by (simp add: client0_def)
  have b: "sent (step ?k ?c)
      = [JObj [(''type'', JStr ''input''), (''up'', JBool True), (''down'', JBool False)]]"
    "inputRef (step ?k ?c) = \<lparr>up = True, down = False\<rparr>"
    using 2 unfolding kr by (simp_all add: client0_def)
  have n: "\<not> socket_open client0"
    by (simp add: socket_open_def client0_def)
  have "sent (step Tick client0) = sent client0"
    using input_sends_current_intent [of Tick client0 "[]" Tick "''KeyW''"] n by blast
  then have 4: "sent (step Tick client0) = []"
    by (simp add: client0_def)
  show ?thesis
    using o a b 3 4 by blast
qed

text \<open>
  The claim's unconditional "immediately whenever a key event changes the intent"
  fails before the socket has opened: on the freshly mounted client, pressing W changes
  the intent, which is stored, and nothing is sent.
\<close>

theorem key_change_unsent_while_connecting:
  "\<not> socket_open client0
   \<and> up (keysRef (step (KeyDown ''KeyW'') client0)) \<noteq> up (keysRef client0)
   \<and> inputRef (step (KeyDown ''KeyW'') client0) = \<lparr>up = True, down = False\<rparr>
   \<and> sent (step (KeyDown ''KeyW'') client0) = sent client0"
  by (simp add: handleKey_def keyMap_lookup_examples Let_def client0_def socket_open_def
      updateInput_def)

section \<open>Keyboard events that change nothing\<close>

text \<open>
  For every code that is no member name of \<^verbatim>\<open>Object.prototype\<close> the handler does what
  is expected of it: a code that is not in the key map, or whose mapped direction
  already has the event's pressed or released value (key auto-repeat), leaves the
  client as it is, and only an event that changes the intent sends.
\<close>

lemma handleKey_other_codes:
  "(keyMap_lookup code = Missing \<longrightarrow> handleKey code b c = c)
   \<and> (keyMap_lookup code = Mapped a \<and> dir_get a (keysRef c) = b \<longrightarrow> handleKey code b c = c)
   \<and> (keyMap_lookup code \<noteq> Inherited \<and> sent (handleKey code b c) \<noteq> sent c \<longrightarrow>
        (up (keysRef (handleKey code b c)), down (keysRef (handleKey code b c)))
          \<noteq> (up (keysRef c), down (keysRef c)))"
proof (intro conjI impI)
  assume "keyMap_lookup code = Missing"
  then show "handleKey code b c = c"
    by (simp add: handleKey_def)
next
  assume "keyMap_lookup code = Mapped a \<and> dir_get a (keysRef c) = b"
  then show "handleKey code b c = c"
    by (simp add: handleKey_def)
next
  assume h: "keyMap_lookup code \<noteq> Inherited \<and> sent (handleKey code b c) \<noteq> sent c"
  show "(up (keysRef (handleKey code b c)), down (keysRef (handleKey code b c)))
          \<noteq> (up (keysRef c), down (keysRef c))"
  proof (cases "keyMap_lookup code")
    case (Mapped dir)
    then show ?thesis using h
      by (cases dir) (auto simp: handleKey_def Let_def split: if_splits)
  next
    case Inherited
    then show ?thesis using h by simp
  next
    case Missing
    then show ?thesis using h by (simp add: handleKey_def)
  qed
qed

text \<open>
  Claim C9 says so of every keyboard event whose code is not in the key map. The code
  misses the names that the key map object inherits: \<^verbatim>\<open>keyMap[event.code]\<close> has no check
  that the property is the object's own. On a client whose socket is open, a keydown
  event with the code \<^verbatim>\<open>constructor\<close>, which is no key of the key map, gets past
  \<^verbatim>\<open>if (!action) return\<close>, adds a property to \<^verbatim>\<open>keysRef.current\<close> and sends the intent,
  though \<^verbatim>\<open>up\<close> and \<^verbatim>\<open>down\<close> are what they were.
\<close>

theorem handleKey_inherited_code:
  "map_of keyMap ''constructor'' = None
   \<and> sent (run [Ready OPEN, KeyDown ''constructor''] client0)
       = [JObj [(''type'', JStr ''input''), (''up'', JBool False), (''down'', JBool False)]]
   \<and> sent (run [Ready OPEN] client0) = []
   \<and> up (keysRef (run [Ready OPEN, KeyDown ''constructor''] client0)) = up (keysRef client0)
   \<and> down (keysRef (run [Ready OPEN, KeyDown ''constructor''] client0)) = down (keysRef client0)
   \<and> inputRef (run [Ready OPEN, KeyDown ''constructor''] client0) = inputRef client0
   \<and> others (keysRef (run [Ready OPEN, KeyDown ''constructor''] client0)) = [(''constructor'', True)]"
  by (simp add: handleKey_def keyMap_lookup_examples Let_def client0_def socket_open_def keyMap_def)

section \<open>Incoming messages\<close>

lemma assign_queues_role:
  assumes "\<not> nullish d" and "field_of d ''type'' = JStr ''assign''"
    and "role = (if field_of d ''player'' = JNull then JStr ''spectator'' else field_of d ''player'')"
  shows "on_message (Some d) c = Inr (c\<lparr>queuedPlayer := Some role\<rparr>)"
    and "step (Message (Some d)) c = c\<lparr>queuedPlayer := Some role\<rparr>"
  using assms by (simp_all add: on_message_cases setAssignedPlayer_def)

text \<open>
  Claim C10, as the code has it. An assign message queues the role it carries
  (\<^verbatim>\<open>player: null\<close> becomes the role \<^verbatim>\<open>'spectator'\<close>, \<^verbatim>\<open>1\<close> or \<^verbatim>\<open>2\<close> that seat) and sends
  nothing itself. The next render makes the queued role the assigned role, and when
  that is a change, the effect of that render resends the client's current full intent
  \<^verbatim>\<open>{ type: 'input', up, down }\<close>, unchanged, if the socket is open. It resends in no other
  case: not when the role is the one already assigned, and not when the socket is not
  open.
\<close>

theorem assign_resends_intent:
  assumes "\<not> nullish d" and "field_of d ''type'' = JStr ''assign''"
    and "role = (if field_of d ''player'' = JNull then JStr ''spectator'' else field_of d ''player'')"
  shows "on_message (Some d) c = Inr (c\<lparr>queuedPlayer := Some role\<rparr>)
     \<and> assignedPlayer (run [Message (Some d), Render] c) = role
     \<and> resendDue (run [Message (Some d), Render] c) = (\<not> role_unchanged (assignedPlayer c) role)
     \<and> inputRef (run [Message (Some d), Render, Effects] c) = inputRef c
     \<and> sent (run [Message (Some d), Render, Effects] c) =
         sent (run_effects c) @
           (if \<not> role_unchanged (assignedPlayer c) role \<and> socket_open c
            then [JObj [(''type'', JStr ''input''), (''up'', JBool (up (inputRef c))),
                        (''down'', JBool (down (inputRef c)))]]
            else [])"
proof -
  have m: "step (Message (Some d)) c = c\<lparr>queuedPlayer := Some role\<rparr>"
    using assms by (rule assign_queues_role)
  show ?thesis
    using assign_queues_role(1) [OF assms, of c]
    by (simp add: m run_effects_sent del: step.simps(4))
qed

theorem assign_resends_intent_witness:
  "assignedPlayer (run [Message (Some (JObj [(''type'', JStr ''assign''), (''player'', JNum 2)])), Render, Effects]
       (client0\<lparr>wsRef := Some OPEN, inputRef := \<lparr>up = True, down = False\<rparr>\<rparr>)) = JNum 2
   \<and> sent (run [Message (Some (JObj [(''type'', JStr ''assign''), (''player'', JNum 2)])), Render, Effects]
       (client0\<lparr>wsRef := Some OPEN, inputRef := \<lparr>up = True, down = False\<rparr>\<rparr>))
      = [JObj [(''type'', JStr ''input''), (''up'', JBool True), (''down'', JBool False)]]
   \<and> assignedPlayer (run [Message (Some (JObj [(''type'', JStr ''assign''), (''player'', JNull)])), Render]
       (client0\<lparr>wsRef := Some OPEN\<rparr>)) = JStr ''spectator''
   \<and> sent (run [Message (Some (JObj [(''type'', JStr ''assign''), (''player'', JNull)])), Render, Effects]
       (client0\<lparr>wsRef := Some OPEN\<rparr>))
      = [JObj [(''type'', JStr ''input''), (''up'', JBool False), (''down'', JBool False)]]"
proof -
  let ?d = "JObj [(''type'', JStr ''assign''), (''player'', JNum 2)]"
  let ?c = "client0\<lparr>wsRef := Some OPEN, inputRef := \<lparr>up = True, down = False\<rparr>\<rparr>"
  let ?e = "JObj [(''type'', JStr ''assign''), (''player'', JNull)]"
  let ?b = "client0\<lparr>wsRef := Some OPEN\<rparr>"
  have d: "\<not> nullish ?d" "field_of ?d ''type'' = JStr ''assign''"
    "JNum 2 = (if field_of ?d ''player'' = JNull then JStr ''spectator'' else field_of ?d ''player'')"
    by simp_all
  have e: "\<not> nullish ?e" "field_of ?e ''type'' = JStr ''assign''"
    "JStr ''spectator'' = (if field_of ?e ''player'' = JNull then JStr ''spectator'' else field_of ?e ''player'')"
    by simp_all
  have c: "\<not> role_unchanged (assignedPlayer ?c) (JNum 2)" "socket_open ?c" "run_effects ?c = ?c"
    "\<not> role_unchanged (assignedPlayer ?b) (JStr ''spectator'')" "socket_open ?b" "run_effects ?b = ?b"
    by (simp_all add: role_unchanged_def client0_def socket_open_def)
  from assign_resends_intent [OF d, of ?c] c
  have 1: "assignedPlayer (run [Message (Some ?d), Render, Effects] ?c) = JNum 2"
    "sent (run [Message (Some ?d), Render, Effects] ?c)
      = [JObj [(''type'', JStr ''input''), (''up'', JBool True), (''down'', JBool False)]]"
    by (simp_all add: client0_def del: step.simps(4))
  from assign_resends_intent [OF e, of ?b] c
  have 2: "assignedPlayer (run [Message (Some ?e), Render] ?b) = JStr ''spectator''"
    "sent (run [Message (Some ?e), Render, Effects] ?b)
      = [JObj [(''type'', JStr ''input''), (''up'', JBool False), (''down'', JBool False)]]"
    by (simp_all add: client0_def del: step.simps(4))
  show ?thesis using 1 2 by blast
qed

text \<open>
  The claim's "whenever the assigned role changes (an assign message is processed),
  the client immediately resends" fails in three ways. When the socket has left the
  open state between the message and the effect, the role changes to 1 and nothing is
  sent; when the socket closes, the role changes from 1 back to \<^verbatim>\<open>null\<close> and nothing more
  is sent; and two assign messages processed before one render give one resend.
\<close>

theorem role_change_without_resend:
  "assignedPlayer (run [Ready OPEN, Message (Some (JObj [(''type'', JStr ''assign''), (''player'', JNum 1)])),
        Ready CLOSING, Render, Effects] client0) = JNum 1
   \<and> sent (run [Ready OPEN, Message (Some (JObj [(''type'', JStr ''assign''), (''player'', JNum 1)])),
        Ready CLOSING, Render, Effects] client0) = []
   \<and> assignedPlayer (run [Ready OPEN, Message (Some (JObj [(''type'', JStr ''assign''), (''player'', JNum 1)])),
        Render, Effects] client0) = JNum 1
   \<and> sent (run [Ready OPEN, Message (Some (JObj [(''type'', JStr ''assign''), (''player'', JNum 1)])),
        Render, Effects] client0)
       = [JObj [(''type'', JStr ''input''), (''up'', JBool False), (''down'', JBool False)]]
   \<and> assignedPlayer (run [Ready OPEN, Message (Some (JObj [(''type'', JStr ''assign''), (''player'', JNum 1)])),
        Render, Effects, Close, Render, Effects] client0) = JNull
   \<and> sent (run [Ready OPEN, Message (Some (JObj [(''type'', JStr ''assign''), (''player'', JNum 1)])),
        Render, Effects, Close, Render, Effects] client0)
       = [JObj [(''type'', JStr ''input''), (''up'', JBool False), (''down'', JBool False)]]
   \<and> assignedPlayer (run [Ready OPEN, Message (Some (JObj [(''type'', JStr ''assign''), (''player'', JNum 1)])),
        Message (Some (JObj [(''type'', JStr ''assign''), (''player'', JNum 2)])), Render, Effects] client0)
       = JNum 2
   \<and> sent (run [Ready OPEN, Message (Some (JObj [(''type'', JStr ''assign''), (''player'', JNum 1)])),
        Message (Some (JObj [(''type'', JStr ''assign''), (''player'', JNum 2)])), Render, Effects] client0)
       = [JObj [(''type'', JStr ''input''), (''up'', JBool False), (''down'', JBool False)]]"
  by (simp add: on_message_cases setAssignedPlayer_def on_close_def run_effects_sent
      role_unchanged_def client0_def socket_open_def)

text \<open>
  Claim C6, as the code has it. An incoming message that is malformed (its text is
  not JSON, or is the JSON text \<^verbatim>\<open>null\<close>) or whose \<^verbatim>\<open>type\<close> is neither \<^verbatim>\<open>"assign"\<close> nor
  \<^verbatim>\<open>"state"\<close> (or is missing) leaves the whole client, with its rendered state and its
  assigned role and what is queued for them, as it was. For a message of the second
  kind the listener returns normally; for a malformed one it throws, a SyntaxError or
  a TypeError.
\<close>

theorem malformed_or_unknown_unchanged:
  "((parsed = None \<or> (\<exists>d. parsed = Some d \<and>
        (nullish d \<or> (field_of d ''type'' \<noteq> JStr ''assign'' \<and> field_of d ''type'' \<noteq> JStr ''state'')))) \<longrightarrow>
      step (Message parsed) c = c)
   \<and> (\<not> nullish d \<and> field_of d ''type'' \<noteq> JStr ''assign'' \<and> field_of d ''type'' \<noteq> JStr ''state'' \<longrightarrow>
        on_message (Some d) c = Inr c)
   \<and> on_message None c = Inl SyntaxError
   \<and> (nullish d \<longrightarrow> on_message (Some d) c = Inl TypeError)"
proof -
  have u: "step (Message (Some x)) c = c"
    if "nullish x \<or> (field_of x ''type'' \<noteq> JStr ''assign'' \<and> field_of x ''type'' \<noteq> JStr ''state'')"
    for x
    using that by (cases "nullish x") (simp_all add: on_message_cases)
  have n: "step (Message None) c = c"
    by (simp add: on_message_cases)
  show ?thesis
    using u n by (auto simp: on_message_cases simp del: step.simps)
qed

theorem malformed_or_unknown_unchanged_witness:
  "step (Message None) client0 = client0
   \<and> step (Message (Some JNull)) client0 = client0
   \<and> step (Message (Some (JObj [(''type'', JStr ''ping'')]))) client0 = client0
   \<and> on_message (Some (JObj [(''type'', JStr ''ping'')])) client0 = Inr client0
   \<and> on_message (Some (JObj [(''type'', JNum 5), (''player'', JNum 1)])) client0 = Inr client0
   \<and> on_message (Some (JArr [])) client0 = Inr client0
   \<and> on_message (Some JNull) client0 = Inl TypeError"
proof -
  note t = malformed_or_unknown_unchanged
  have 1: "step (Message None) client0 = client0"
    using t [of None client0 JNull] by blast
  have 2: "step (Message (Some JNull)) client0 = client0"
    using t [of "Some JNull" client0 JNull] by (simp del: step.simps)
  have p: "\<not> nullish (JObj [(''type'', JStr ''ping'')])"
    "field_of (JObj [(''type'', JStr ''ping'')]) ''type'' \<noteq> JStr ''assign''"
    "field_of (JObj [(''type'', JStr ''ping'')]) ''type'' \<noteq> JStr ''state''"
    by simp_all
  have 3: "step (Message (Some (JObj [(''type'', JStr ''ping'')]))) client0 = client0"
    using t [of "Some (JObj [(''type'', JStr ''ping'')])" client0 JNull] p by (simp del: step.simps)
  have 4: "on_message (Some (JObj [(''type'', JStr ''ping'')])) client0 = Inr client0"
    using t [of None client0 "JObj [(''type'', JStr ''ping'')]"] p by blast
  have 5: "on_message (Some (JObj [(''type'', JNum 5), (''player'', JNum 1)])) client0 = Inr client0"
    using t [of None client0 "JObj [(''type'', JNum 5), (''player'', JNum 1)]"] by simp
  have 6: "on_message (Some (JArr [])) client0 = Inr client0"
    using t [of None client0 "JArr []"] by (simp add: array_index_def digit_val_def)
  have 7: "on_message (Some JNull) client0 = Inl TypeError"
    using t [of None client0 JNull] by simp
  show ?thesis using 1 2 3 4 5 6 7 by blast
qed

text \<open>
  So the claim's "no error is raised" fails for a malformed message: the listener
  catches nothing, a text that is not JSON ends it with the SyntaxError of
  \<^verbatim>\<open>JSON.parse\<close>, and the JSON text \<^verbatim>\<open>null\<close> ends it with the TypeError of reading
  \<^verbatim>\<open>data.type\<close>.
\<close>

theorem malformed_message_throws:
  "on_message None client0 = Inl SyntaxError \<and> on_message (Some JNull) client0 = Inl TypeError"
  by (simp add: on_message_cases)

section \<open>What the role label shows\<close>

text \<open>
  Claim C7, as the code has it. Before any assignment (\<^verbatim>\<open>assignedPlayer\<close> is \<^verbatim>\<open>null\<close>:
  on the mounted client, and again at the render after the socket has closed) the role
  label is \<^verbatim>\<open>Connecting...\<close>. The spectator role, which is what the render after an
  assign message with \<^verbatim>\<open>player: null\<close> assigns, has the label \<^verbatim>\<open>Spectator\<close>.
\<close>

theorem roleLabel_values:
  "roleLabel JNull = ''Connecting...''
   \<and> roleLabel (assignedPlayer client0) = ''Connecting...''
   \<and> roleLabel (assignedPlayer (render (on_close c))) = ''Connecting...''
   \<and> roleLabel (JStr ''spectator'') = ''Spectator''
   \<and> (\<not> nullish d \<and> field_of d ''type'' = JStr ''assign'' \<and> field_of d ''player'' = JNull \<longrightarrow>
        (\<exists>c'. on_message (Some d) c = Inr c' \<and> assignedPlayer (render c') = JStr ''spectator''
           \<and> roleLabel (assignedPlayer (render c')) = ''Spectator''))"
  by (simp add: roleLabel_def client0_def on_close_def on_message_cases setAssignedPlayer_def)

theorem roleLabel_values_witness:
  "\<exists>c'. on_message (Some (JObj [(''type'', JStr ''assign''), (''player'', JNull)])) client0 = Inr c'
     \<and> assignedPlayer (render c') = JStr ''spectator''
     \<and> roleLabel (assignedPlayer (render c')) = ''Spectator''"
  using roleLabel_values [of client0 "JObj [(''type'', JStr ''assign''), (''player'', JNull)]"]
  by simp

text \<open>
  So the spectator role does not show the connecting indicator.
\<close>

theorem spectator_label_not_connecting:
  "roleLabel (JStr ''spectator'') = ''Spectator'' \<and> roleLabel (JStr ''spectator'') \<noteq> ''Connecting...''"
  by (simp add: roleLabel_def)

end
